theory Spec2Isabelle
  imports Complex_Main "HOL-Library.Log_Nat"
begin

section \<open>The retrying task runner: \<open>loading\<close> (src/utils/index.ts, lines 12-61)\<close>

text \<open>
  \<open>loading\<close> is an async function around one module-level variable,
  \<^verbatim>\<open>let retryCount = 0\<close>. The model passes the process state explicitly: the
  counter, and the part of the world the callback reads and writes. An exception
  (a throw or a rejected promise) is the \<open>Inl\<close> side of a sum, \<open>undefined\<close> is
  \<open>None\<close>. What the function does to its collaborators (the spinner, the timer)
  and each call of the callback is returned as a list of events, in program order.
\<close>

datatype exn = TypeError | RangeError | Error string

datatype event =
    SpinnerStart string string
  | Invoke
  | SpinnerSucceed string
  | SpinnerFail string
  | Sleep int

record 'w process =
  retryCount :: nat
  world :: 'w

text \<open>
  An \<open>await\<close> hands control to the rest of the program until the awaited promise
  settles. Other activations of \<open>loading\<close>, started beside this run or by the
  callback itself, may execute \<open>retryCount++\<close> meanwhile; nothing else writes the
  counter, which the module does not export, so it can only have grown when
  control returns. An awaited step therefore gives, from the state of the
  process in which it starts: its outcome, the world when it settles, and the
  number of times the counter was raised meanwhile.
\<close>

type_synonym ('w, 'x) awaited = "'w process \<Rightarrow> 'x \<times> 'w \<times> nat"

definition settled :: "'w process \<Rightarrow> 'x \<times> 'w \<times> nat \<Rightarrow> 'w process" where
  "settled s r = s\<lparr>world := fst (snd r), retryCount := retryCount s + snd (snd r)\<rparr>"

text \<open>
  Modelled from the spec: the declaration of \<open>LoadingOptions\<close> (./types) is not
  among the sources. The fields and their defaults are those that \<open>loading\<close>
  destructures; each is optional but \<open>cb\<close>. \<open>text'\<close> is the field \<open>text\<close>.
  The spec's TaskSpec gives \<open>maxRetries\<close> and \<open>retryDelay\<close> as whole numbers; the
  model takes any integer. \<open>cb\<close> applied to the arguments and awaited is a step
  that returns a value or fails.
\<close>

record ('a, 'w, 'v) LoadingOptions =
  text' :: "string option"
  cb :: "'a \<Rightarrow> ('w, exn + 'v option) awaited"
  okText :: "string option"
  failureText :: "string option"
  maxRetries :: "int option"
  retryDelay :: "int option"
  color :: "string option"

text \<open>
  The delay between two attempts, a promise that \<open>setTimeout\<close> resolves after
  so many milliseconds: awaited, it is a step too.
\<close>

type_synonym 'w timer = "int \<Rightarrow> ('w, unit) awaited"

text \<open>A destructuring default: the default stands in for a field that is undefined.\<close>

definition or_default :: "'x option \<Rightarrow> 'x \<Rightarrow> 'x" where
  "or_default v d = (case v of None \<Rightarrow> d | Some x \<Rightarrow> x)"

text \<open>
  One activation of \<open>loading\<close>: a new spinner is started, the callback is awaited,
  and the \<open>catch\<close> block, which reads the counter as it stands when the callback
  has failed, either counts a retry, waits and calls \<open>loading\<close> again with the
  same options and arguments, or gives up with a bare \<open>return\<close>. Every
  activation calls the callback once; \<open>Invoke\<close> records that call.
\<close>

function loading ::
  "'w timer \<Rightarrow> ('a, 'w, 'v) LoadingOptions \<Rightarrow> 'a \<Rightarrow> 'w process
     \<Rightarrow> (exn + 'v option) \<times> event list \<times> 'w process" where
  "loading timer options args s =
     (let spinner = [SpinnerStart (or_default (text' options) ''loading...'')
                       (or_default (color options) ''yellow''), Invoke];
          r = cb options args s;
          s1 = settled s r
      in case fst r of
           Inr result \<Rightarrow>
             (Inr result, spinner @ [SpinnerSucceed (or_default (okText options) ''ok'')], s1)
         | Inl e \<Rightarrow>
             if int (retryCount s1) \<le> or_default (maxRetries options) 2 then
               (let s2 = s1\<lparr>retryCount := retryCount s1 + 1\<rparr>;
                    s3 = settled s2 (timer (or_default (retryDelay options) 200) s2);
                    again = loading timer options args s3
                in (fst again,
                    spinner @ [SpinnerFail ''Failure, reTrying...'',
                               Sleep (or_default (retryDelay options) 200)] @ fst (snd again),
                    snd (snd again)))
             else
               (Inr None,
                spinner @ [SpinnerFail (or_default (failureText options) ''failure'')], s1))"
  by pat_completeness auto
termination
  by (relation "measure (\<lambda>(timer, options, args, s).
        nat (or_default (maxRetries options) 2 + 1 - int (retryCount s)))")
    (auto simp: settled_def)

declare loading.simps [simp del]

text \<open>The state in which the next activation starts when a retry is made.\<close>

definition next_attempt ::
  "'w timer \<Rightarrow> ('a, 'w, 'v) LoadingOptions \<Rightarrow> 'a \<Rightarrow> 'w process \<Rightarrow> 'w process" where
  "next_attempt timer options args s =
     (let s1 = settled s (cb options args s);
          s2 = s1\<lparr>retryCount := retryCount s1 + 1\<rparr>
      in settled s2 (timer (or_default (retryDelay options) 200) s2))"

text \<open>The three parts of what a run returns, and what is read off its events.\<close>

definition result :: "(exn + 'v option) \<times> event list \<times> 'w process \<Rightarrow> exn + 'v option" where
  "result r = fst r"

definition events :: "(exn + 'v option) \<times> event list \<times> 'w process \<Rightarrow> event list" where
  "events r = fst (snd r)"

definition final :: "(exn + 'v option) \<times> event list \<times> 'w process \<Rightarrow> 'w process" where
  "final r = snd (snd r)"

definition invocations :: "(exn + 'v option) \<times> event list \<times> 'w process \<Rightarrow> nat" where
  "invocations r = count_list (events r) Invoke"

fun is_failure :: "event \<Rightarrow> bool" where
  "is_failure (SpinnerFail t) = True"
| "is_failure ev = False"

text \<open>The failed attempts of a run: each one ends in \<open>spinner.fail\<close>.\<close>

definition failures :: "(exn + 'v option) \<times> event list \<times> 'w process \<Rightarrow> nat" where
  "failures r = length (filter is_failure (events r))"

text \<open>The state of a process in which \<open>loading\<close> has not run yet.\<close>

definition fresh :: "'w \<Rightarrow> 'w process" where
  "fresh w = \<lparr>retryCount = 0, world = w\<rparr>"

text \<open>
  A run that has the process to itself: nothing raises the counter while it
  waits for the timer, and nothing but the callback \<open>f\<close>, a step on the world
  alone, happens while it waits for the callback.
\<close>

definition quiet :: "'w timer" where
  "quiet d p = ((), world p, 0)"

definition alone :: "('a \<Rightarrow> 'w \<Rightarrow> 'x \<times> 'w) \<Rightarrow> 'a \<Rightarrow> ('w, 'x) awaited" where
  "alone f a p = (fst (f a (world p)), snd (f a (world p)), 0)"

text \<open>
  A callback that fails on every call, alone in the process: it throws
  \<open>err a p\<close> and leaves the world \<open>next a p\<close>.
\<close>

definition failing ::
  "('a \<Rightarrow> 'w process \<Rightarrow> exn) \<Rightarrow> ('a \<Rightarrow> 'w process \<Rightarrow> 'w) \<Rightarrow> 'a \<Rightarrow> ('w, exn + 'v option) awaited" where
  "failing err next a p = (Inl (err a p), next a p, 0)"

text \<open>
  A callback that fails on its first call and succeeds with 42 from then on; its
  world is the number of calls so far.
\<close>

definition flaky :: "unit \<Rightarrow> nat \<Rightarrow> (exn + nat option) \<times> nat" where
  "flaky a n = (if n = 0 then Inl (Error ''first call'') else Inr (Some 42), n + 1)"

definition defaults :: "('a \<Rightarrow> ('w, exn + 'v option) awaited) \<Rightarrow> ('a, 'w, 'v) LoadingOptions" where
  "defaults f = \<lparr>text' = None, cb = f, okText = None, failureText = None,
                  maxRetries = None, retryDelay = None, color = None\<rparr>"

text \<open>Three sets of options around one callback that always throws.\<close>

definition boom :: "unit \<Rightarrow> (unit, exn + nat option) awaited" where
  "boom = failing (\<lambda>a p. Error ''boom'') (\<lambda>a p. world p)"

definition run0 :: "(unit, unit, nat) LoadingOptions" where
  "run0 = (defaults boom)\<lparr>maxRetries := Some 0\<rparr>"

definition run1 :: "(unit, unit, nat) LoadingOptions" where
  "run1 = (defaults boom)\<lparr>maxRetries := Some 1\<rparr>"

definition run2 :: "(unit, unit, nat) LoadingOptions" where
  "run2 = (defaults boom)\<lparr>maxRetries := Some 2\<rparr>"

text \<open>
  Two runs started together, as by \<open>Promise.all\<close>: \<open>run1\<close>, whose callback throws
  at once, beside a run of \<open>flaky\<close> whose first call takes longer to fail than
  \<open>run1\<close> takes to use up its retries (300 ms, say, against two delays of 200 ms
  of which the second is still running). \<open>beside p\<close> is what the run of \<open>run1\<close>
  adds to a counter that stands as in \<open>p\<close>; \<open>slow_flaky\<close> is the callback \<open>flaky\<close>
  with that happening during its first call.
\<close>

definition beside :: "'w process \<Rightarrow> nat" where
  "beside p = retryCount (final (loading quiet run1 () \<lparr>retryCount = retryCount p, world = ()\<rparr>))
                - retryCount p"

definition slow_flaky :: "unit \<Rightarrow> (nat, exn + nat option) awaited" where
  "slow_flaky a p = (fst (flaky a (world p)), snd (flaky a (world p)),
                     if world p = 0 then beside p else 0)"

section \<open>JavaScript numbers and \<open>Number\<close> on strings\<close>

text \<open>
  \<open>gt\<close> turns every segment of a version string into a number with \<open>Number\<close> and
  compares numbers with \<open>!==\<close> and \<open>>\<close>. A number is NaN, an infinity or a finite
  binary64 value, kept as the rational it denotes. The two zeros are one value
  here: \<open>!==\<close> and \<open>>\<close> do not tell them apart, and \<open>gt\<close> observes nothing else.
\<close>

datatype jsnum = NaN | NegInf | Fin rat | PosInf

text \<open>\<open>x !== y\<close> on numbers: NaN differs from everything, itself included.\<close>

definition strict_ne :: "jsnum \<Rightarrow> jsnum \<Rightarrow> bool" where
  "strict_ne x y = (x = NaN \<or> y = NaN \<or> x \<noteq> y)"

text \<open>\<open>x > y\<close> on numbers: false as soon as either side is NaN.\<close>

fun js_gt :: "jsnum \<Rightarrow> jsnum \<Rightarrow> bool" where
  "js_gt NaN y = False"
| "js_gt x NaN = False"
| "js_gt PosInf y = (y \<noteq> PosInf)"
| "js_gt x PosInf = False"
| "js_gt NegInf y = False"
| "js_gt (Fin p) NegInf = True"
| "js_gt (Fin p) (Fin q) = (q < p)"

text \<open>
  The number value of a rational: the nearest binary64 value, ties to the even
  significand. \<open>ilog2 q\<close> is the binary exponent of a positive \<open>q\<close>; the
  significand has 53 bits above the subnormal range, whose spacing is \<open>pow2 (- 1074)\<close>;
  a value that rounds up to \<open>pow2 1024\<close> is an infinity.
\<close>

definition round_half_even :: "rat \<Rightarrow> int" where
  "round_half_even q =
     (let f = \<lfloor>q\<rfloor>; d = q - of_int f
      in if d < 1 / 2 then f else if 1 / 2 < d then f + 1 else if even f then f else f + 1)"

definition pow2 :: "int \<Rightarrow> rat" where
  "pow2 k = (if 0 \<le> k then 2 ^ nat k else 1 / 2 ^ nat (- k))"

definition ilog2 :: "rat \<Rightarrow> int" where
  "ilog2 q = (let k = bitlen (fst (quotient_of q)) - bitlen (snd (quotient_of q))
              in if pow2 k \<le> q then k else k - 1)"

definition to_double :: "rat \<Rightarrow> jsnum" where
  "to_double q =
     (if q = 0 then Fin 0
      else let a = \<bar>q\<bar>; p = max (ilog2 a - 52) (- 1074);
               v = of_int (round_half_even (a / pow2 p)) * pow2 p
           in if pow2 1024 \<le> v then (if 0 < q then PosInf else NegInf)
              else Fin (if 0 < q then v else - v))"

text \<open>
  \<open>Number(str)\<close> for a string, after the StringNumericLiteral grammar: white space
  is trimmed; the empty string is 0; \<open>0x\<close>, \<open>0o\<close> and \<open>0b\<close> literals take no sign;
  a decimal literal has an optional sign, then \<open>Infinity\<close> or digits with an
  optional fraction and exponent; anything else is NaN. A \<open>char\<close> is a code unit
  below 256, so of the white space characters the model knows TAB, LF, VT, FF,
  CR, SP and NBSP.
\<close>

definition isWhiteSpace :: "char \<Rightarrow> bool" where
  "isWhiteSpace c = ((of_char c :: nat) \<in> {9, 10, 11, 12, 13, 32, 160})"

definition trim :: "string \<Rightarrow> string" where
  "trim s = rev (dropWhile isWhiteSpace (rev (dropWhile isWhiteSpace s)))"

definition digit_of :: "int \<Rightarrow> char \<Rightarrow> int option" where
  "digit_of b c =
     (let n = (of_char c :: int);
          d = (if 48 \<le> n \<and> n \<le> 57 then n - 48
               else if 97 \<le> n \<and> n \<le> 102 then n - 87
               else if 65 \<le> n \<and> n \<le> 70 then n - 55
               else b)
      in if d < b then Some d else None)"

fun digits_from :: "int \<Rightarrow> int \<Rightarrow> string \<Rightarrow> int option" where
  "digits_from b acc [] = Some acc"
| "digits_from b acc (c # cs) =
     (case digit_of b c of None \<Rightarrow> None | Some d \<Rightarrow> digits_from b (acc * b + d) cs)"

definition digits :: "int \<Rightarrow> string \<Rightarrow> int option" where
  "digits b cs = (if cs = [] then None else digits_from b 0 cs)"

definition pow10 :: "int \<Rightarrow> rat" where
  "pow10 k = (if 0 \<le> k then 10 ^ nat k else 1 / 10 ^ nat (- k))"

definition is_e :: "char \<Rightarrow> bool" where
  "is_e c = (c = CHR ''e'' \<or> c = CHR ''E'')"

definition exponent_part :: "string \<Rightarrow> int option" where
  "exponent_part s =
     (case s of
        [] \<Rightarrow> Some 0
      | e # r \<Rightarrow>
          (case r of
             [] \<Rightarrow> None
           | c # ds \<Rightarrow>
               if c = CHR ''+'' then digits 10 ds
               else if c = CHR ''-'' then map_option uminus (digits 10 ds)
               else digits 10 r))"

definition mantissa :: "string \<Rightarrow> rat option" where
  "mantissa m =
     (let ip = takeWhile (\<lambda>c. c \<noteq> CHR ''.'') m; rest = dropWhile (\<lambda>c. c \<noteq> CHR ''.'') m
      in if rest = [] then map_option of_int (digits 10 ip)
         else let fp = tl rest
              in if ip = [] \<and> fp = [] then None
                 else (case (digits_from 10 0 ip, digits_from 10 0 fp) of
                         (Some i, Some f) \<Rightarrow> Some (of_int i + of_int f * pow10 (- int (length fp)))
                       | _ \<Rightarrow> None))"

definition unsigned_decimal :: "string \<Rightarrow> rat option" where
  "unsigned_decimal s =
     (case (mantissa (takeWhile (\<lambda>c. \<not> is_e c) s), exponent_part (dropWhile (\<lambda>c. \<not> is_e c) s)) of
        (Some m, Some k) \<Rightarrow> Some (m * pow10 k)
      | _ \<Rightarrow> None)"

definition signed_decimal :: "bool \<Rightarrow> string \<Rightarrow> jsnum" where
  "signed_decimal neg s =
     (if s = ''Infinity'' then (if neg then NegInf else PosInf)
      else case unsigned_decimal s of
             None \<Rightarrow> NaN
           | Some q \<Rightarrow> to_double (if neg then - q else q))"

definition radix_prefix :: "string \<Rightarrow> int option" where
  "radix_prefix s =
     (case s of
        z # x # _ \<Rightarrow>
          if z \<noteq> CHR ''0'' then None
          else if x = CHR ''x'' \<or> x = CHR ''X'' then Some 16
          else if x = CHR ''o'' \<or> x = CHR ''O'' then Some 8
          else if x = CHR ''b'' \<or> x = CHR ''B'' then Some 2
          else None
      | _ \<Rightarrow> None)"

definition Number' :: "string \<Rightarrow> jsnum" where
  "Number' str =
     (let s = trim str
      in if s = [] then Fin 0
         else case radix_prefix s of
                Some b \<Rightarrow> (case digits b (drop 2 s) of None \<Rightarrow> NaN | Some n \<Rightarrow> to_double (of_int n))
              | None \<Rightarrow>
                  if hd s = CHR ''+'' then signed_decimal False (tl s)
                  else if hd s = CHR ''-'' then signed_decimal True (tl s)
                  else signed_decimal False s)"

section \<open>The version comparator: \<open>gt\<close> (src/utils/index.ts, lines 88-96)\<close>

text \<open>\<open>v.split(".")\<close>: the pieces between the separators; empty pieces are kept.\<close>

fun split_on :: "char \<Rightarrow> string \<Rightarrow> string list" where
  "split_on sep [] = [[]]"
| "split_on sep (c # cs) =
     (if c = sep then [] # split_on sep cs
      else (case split_on sep cs of [] \<Rightarrow> [[c]] | p # ps \<Rightarrow> (c # p) # ps))"

text \<open>
  The values \<open>gt\<close> can be handed at run time. \<open>checkVersion\<close> passes it whatever
  the registry's answer holds at \<open>dist-tags.latest\<close>, which TypeScript does not
  check: the answer is parsed JSON, or \<open>undefined\<close> where nothing was found.
  An object lists its own members, each key once.
\<close>

datatype json =
    JUndefined
  | JNull
  | JBool bool
  | JNumber rat
  | JString string
  | JArray "json list"
  | JObject "(string \<times> json) list"

text \<open>
  The arrow function \<open>pad\<close> inside \<open>gt\<close>. Only a string has a \<open>split\<close> method, so
  any other value raises a TypeError; \<open>Array(len)\<close> raises a RangeError unless
  \<open>len\<close> is a whole number below \<open>2 ^ 32\<close>.
\<close>

definition pad :: "nat \<Rightarrow> json \<Rightarrow> exn + jsnum list" where
  "pad len v =
     (case v of
        JString s \<Rightarrow>
          if len < 2 ^ 32
          then Inr (take len (map Number' (split_on CHR ''.'' s) @ replicate len (Fin 0)))
          else Inl RangeError
      | _ \<Rightarrow> Inl TypeError)"

text \<open>The \<open>for\<close> loop of \<open>gt\<close>, from index \<open>i\<close> on.\<close>

function gt_loop :: "jsnum list \<Rightarrow> jsnum list \<Rightarrow> nat \<Rightarrow> nat \<Rightarrow> bool" where
  "gt_loop a b len i =
     (if i < len
      then (if strict_ne (a ! i) (b ! i) then js_gt (a ! i) (b ! i) else gt_loop a b len (i + 1))
      else False)"
  by pat_completeness auto
termination
  by (relation "measure (\<lambda>(a, b, len, i). len - i)") auto

declare gt_loop.simps [simp del]

text \<open>
  \<open>gt\<close> itself. A parameter default replaces \<open>undefined\<close> only: \<open>''0.0.0''\<close> for a
  version, 3 for \<open>len\<close> (\<open>None\<close> is the call with two arguments, the only one in
  the module).
\<close>

definition gt :: "json \<Rightarrow> json \<Rightarrow> nat option \<Rightarrow> exn + bool" where
  "gt v1 v2 len =
     (let v1' = (if v1 = JUndefined then JString ''0.0.0'' else v1);
          v2' = (if v2 = JUndefined then JString ''0.0.0'' else v2);
          len' = or_default len 3
      in case pad len' v1' of
           Inl err \<Rightarrow> Inl err
         | Inr a \<Rightarrow>
             (case pad len' v2' of
                Inl err \<Rightarrow> Inl err
              | Inr b \<Rightarrow> Inr (gt_loop a b len' 0)))"

text \<open>
  The comparison in the spec's words (4.1), to compare \<open>gt\<close> with: scanning the
  components left to right, the first differing pair decides, and \<open>a\<close> is greater
  iff its component of that pair is strictly greater; no difference means not
  greater.
\<close>

definition first_difference :: "jsnum list \<Rightarrow> jsnum list \<Rightarrow> nat option" where
  "first_difference a b = find (\<lambda>i. strict_ne (a ! i) (b ! i)) [0..<length a]"

definition greaterThan :: "jsnum list \<Rightarrow> jsnum list \<Rightarrow> bool" where
  "greaterThan a b =
     (case first_difference a b of None \<Rightarrow> False | Some i \<Rightarrow> js_gt (a ! i) (b ! i))"

section \<open>The registry lookup and the staleness check (lines 69-78 and 104-119)\<close>

text \<open>
  Reading a member, \<open>v[k]\<close>: a TypeError on \<open>undefined\<close> and \<open>null\<close>, the member
  of an object or \<open>undefined\<close> where it has none. The two keys the code reads,
  \<open>dist-tags\<close> and \<open>latest\<close>, are no built-in property of a string, a number, a
  boolean or an array, so on those the read gives \<open>undefined\<close>.
\<close>

fun member :: "json \<Rightarrow> string \<Rightarrow> exn + json" where
  "member JUndefined k = Inl TypeError"
| "member JNull k = Inl TypeError"
| "member (JObject kvs) k = Inr (case map_of kvs k of None \<Rightarrow> JUndefined | Some v \<Rightarrow> v)"
| "member v k = Inr JUndefined"

text \<open>
  What is written to the console: \<open>console.warn\<close> and \<open>console.log\<close> of a
  template literal, whose pieces are plain text or a value styled by chalk.
\<close>

datatype style = Yellow | BlackBright

datatype segment = Plain string | Chalk style json

datatype console = Warn "segment list" | Log "segment list"

text \<open>
  \<open>axios.get(url)\<close>, awaited: the request is rejected (no network, a status
  outside 2xx), or there is a response, of which the code reads \<open>data\<close>.
\<close>

type_synonym registry = "string \<Rightarrow> exn + json"

definition NPM_URL :: string where
  "NPM_URL = ''https://registry.npmjs.org/''"

definition warning :: "string \<Rightarrow> console list" where
  "warning name = [Warn [Chalk Yellow (JString (''Can not get latest version of '' @ name))]]"

text \<open>
  \<open>getNpmLatestVersion\<close>: the inner \<open>case\<close> is the \<open>try\<close> block, the outer one the
  \<open>catch\<close>; \<open>version\<close> is still \<open>undefined\<close> when the \<open>try\<close> block did not finish.
\<close>

definition getNpmLatestVersion :: "registry \<Rightarrow> string \<Rightarrow> console list \<times> (exn + json)" where
  "getNpmLatestVersion axios_get name =
     (case (case axios_get (NPM_URL @ name) of
              Inl err \<Rightarrow> Inl err
            | Inr data \<Rightarrow>
                (case member data ''dist-tags'' of
                   Inl err \<Rightarrow> Inl err
                 | Inr tags \<Rightarrow> member tags ''latest'')) of
        Inl err \<Rightarrow> (warning name, Inr JUndefined)
      | Inr version \<Rightarrow> ([], Inr version))"

text \<open>The two lines \<open>checkVersion\<close> prints when an update is needed.\<close>

definition advisory :: "json \<Rightarrow> string \<Rightarrow> console list" where
  "advisory latestVersion version =
     [Warn [Plain ''Detected latest version of action-cli: '', Chalk BlackBright latestVersion,
            Plain ''. Your current version is: '', Chalk BlackBright (JString version)],
      Log [Plain ''To update, use '', Chalk Yellow (JString ''npm install action-cli@latest -g''),
           Plain '', or alternatively, run '', Chalk Yellow (JString ''action update'')]]"

definition checkVersion :: "registry \<Rightarrow> string \<Rightarrow> string \<Rightarrow> console list \<times> (exn + unit)" where
  "checkVersion axios_get name version =
     (let r = getNpmLatestVersion axios_get name
      in case snd r of
           Inl err \<Rightarrow> (fst r, Inl err)
         | Inr latestVersion \<Rightarrow>
             (case gt latestVersion (JString version) None of
                Inl err \<Rightarrow> (fst r, Inl err)
              | Inr needUpdate \<Rightarrow>
                  if needUpdate then (fst r @ advisory latestVersion version, Inr ())
                  else (fst r, Inr ())))"

text \<open>
  Four registries: one that cannot be reached, one that answers with a package
  whose latest version is 2.0.0, one whose answer has no \<open>dist-tags\<close>, and one
  whose \<open>dist-tags\<close> has no \<open>latest\<close>.
\<close>

definition offline :: registry where
  "offline url = Inl (Error ''ENOTFOUND'')"

definition published :: registry where
  "published url = Inr (JObject [(''name'', JString ''action-cli''),
                                 (''dist-tags'', JObject [(''latest'', JString ''2.0.0'')])])"

definition no_dist_tags :: registry where
  "no_dist_tags url = Inr (JObject [(''error'', JString ''Not found'')])"

definition no_latest :: registry where
  "no_latest url = Inr (JObject [(''name'', JString ''action-cli''), (''dist-tags'', JObject [])])"

text \<open>A fifth, whose \<open>latest\<close> is a number.\<close>

definition numeric_latest :: registry where
  "numeric_latest url = Inr (JObject [(''dist-tags'', JObject [(''latest'', JNumber 5)])])"

section \<open>Properties of \<open>loading\<close>\<close>

subsection \<open>One activation\<close>

lemma loading_success:
  assumes "fst (cb options args s) = Inr v"
  shows "loading timer options args s =
           (Inr v,
            [SpinnerStart (or_default (text' options) ''loading...'')
               (or_default (color options) ''yellow''), Invoke,
             SpinnerSucceed (or_default (okText options) ''ok'')],
            settled s (cb options args s))"
  using assms by (subst loading.simps) (simp add: Let_def)

lemma loading_give_up:
  assumes "fst (cb options args s) = Inl e"
    and "\<not> int (retryCount (settled s (cb options args s))) \<le> or_default (maxRetries options) 2"
  shows "loading timer options args s =
           (Inr None,
            [SpinnerStart (or_default (text' options) ''loading...'')
               (or_default (color options) ''yellow''), Invoke,
             SpinnerFail (or_default (failureText options) ''failure'')],
            settled s (cb options args s))"
  using assms by (subst loading.simps) (simp add: Let_def)

lemma loading_retry:
  assumes "fst (cb options args s) = Inl e"
    and "int (retryCount (settled s (cb options args s))) \<le> or_default (maxRetries options) 2"
  shows "loading timer options args s =
           (let again = loading timer options args (next_attempt timer options args s)
            in (fst again,
                [SpinnerStart (or_default (text' options) ''loading...'')
                   (or_default (color options) ''yellow''), Invoke,
                 SpinnerFail ''Failure, reTrying...'',
                 Sleep (or_default (retryDelay options) 200)] @ fst (snd again),
                snd (snd again)))"
  using assms by (subst loading.simps) (simp add: Let_def next_attempt_def)

lemma retryCount_settled: "retryCount (settled s r) = retryCount s + snd (snd r)"
  by (simp add: settled_def)

lemma retryCount_next_attempt:
  "retryCount (next_attempt timer options args s)
     = retryCount s + snd (snd (cb options args s)) + 1
       + snd (snd (timer (or_default (retryDelay options) 200)
                    ((settled s (cb options args s))
                       \<lparr>retryCount := retryCount (settled s (cb options args s)) + 1\<rparr>)))"
  by (simp add: next_attempt_def Let_def settled_def)

subsection \<open>Whole runs\<close>

text \<open>
  Induction along the activations of one run: a property holds of every state
  when it holds where the callback succeeds, where the run gives up, and where
  a retry leads to a state of which it holds.
\<close>

lemma loading_run_induct [case_names success give_up retry]:
  assumes success: "\<And>s v. fst (cb options args s) = Inr v \<Longrightarrow> P s"
    and give_up: "\<And>s e. fst (cb options args s) = Inl e
        \<Longrightarrow> \<not> int (retryCount (settled s (cb options args s))) \<le> or_default (maxRetries options) 2
        \<Longrightarrow> P s"
    and retry: "\<And>s e. fst (cb options args s) = Inl e
        \<Longrightarrow> int (retryCount (settled s (cb options args s))) \<le> or_default (maxRetries options) 2
        \<Longrightarrow> P (next_attempt timer options args s)
        \<Longrightarrow> P s"
  shows "P s"
proof (induction "nat (or_default (maxRetries options) 2 + 1 - int (retryCount s))"
    arbitrary: s rule: less_induct)
  case less
  show ?case
  proof (cases "fst (cb options args s)")
    case (Inr v)
    then show ?thesis by (rule success)
  next
    case (Inl e)
    show ?thesis
    proof (cases "int (retryCount (settled s (cb options args s))) \<le> or_default (maxRetries options) 2")
      case False
      with Inl show ?thesis by (rule give_up)
    next
      case True
      then have "nat (or_default (maxRetries options) 2 + 1
                   - int (retryCount (next_attempt timer options args s)))
                 < nat (or_default (maxRetries options) 2 + 1 - int (retryCount s))"
        by (simp add: retryCount_next_attempt retryCount_settled)
      then have "P (next_attempt timer options args s)" by (rule less)
      with Inl True show ?thesis by (rule retry)
    qed
  qed
qed

lemma loading_returns:
  "\<exists>r. fst (loading timer options args s) = Inr r"
proof (induction s rule: loading_run_induct [of options args _ timer])
  case (success s v)
  then show ?case by (simp add: loading_success)
next
  case (give_up s e)
  then show ?case by (simp add: loading_give_up)
next
  case (retry s e)
  then show ?case by (simp add: loading_retry Let_def)
qed

lemma loading_invocations_pos:
  "0 < count_list (fst (snd (loading timer options args s))) Invoke"
proof (cases "fst (cb options args s)")
  case (Inl e)
  then show ?thesis
    by (cases "int (retryCount (settled s (cb options args s))) \<le> or_default (maxRetries options) 2")
      (simp_all add: loading_retry loading_give_up Let_def)
next
  case (Inr v)
  then show ?thesis by (simp add: loading_success)
qed

text \<open>The counter never goes down, and goes up by one at least for each retry.\<close>

lemma loading_retryCount_ge:
  "retryCount s + (count_list (fst (snd (loading timer options args s))) Invoke - 1)
     \<le> retryCount (snd (snd (loading timer options args s)))"
proof (induction s rule: loading_run_induct [of options args _ timer])
  case (success s v)
  then show ?case by (simp add: loading_success retryCount_settled)
next
  case (give_up s e)
  then show ?case by (simp add: loading_give_up retryCount_settled)
next
  case (retry s e)
  from retry loading_invocations_pos [of timer options args "next_attempt timer options args s"]
  show ?case
    by (simp add: loading_retry Let_def retryCount_next_attempt)
qed

lemma loading_invocations_le:
  "count_list (fst (snd (loading timer options args s))) Invoke
     \<le> nat (or_default (maxRetries options) 2 + 1 - int (retryCount s)) + 1"
proof (induction s rule: loading_run_induct [of options args _ timer])
  case (success s v)
  then show ?case by (simp add: loading_success)
next
  case (give_up s e)
  then show ?case by (simp add: loading_give_up)
next
  case (retry s e)
  then show ?case by (simp add: loading_retry Let_def retryCount_next_attempt retryCount_settled)
qed

lemma loading_always_failing_undefined:
  assumes "\<forall>p. isl (fst (cb options args p))"
  shows "fst (loading timer options args s) = Inr None"
proof (induction s rule: loading_run_induct [of options args _ timer])
  case (success s v)
  with assms show ?case by (metis sum.disc(2))
next
  case (give_up s e)
  then show ?case by (simp add: loading_give_up)
next
  case (retry s e)
  then show ?case by (simp add: loading_retry Let_def)
qed

text \<open>With the process to itself, a run counts exactly its retries.\<close>

lemma loading_retryCount:
  assumes "\<forall>p. snd (snd (cb options args p)) = 0" and "\<forall>d p. snd (snd (timer d p)) = 0"
  shows "retryCount (snd (snd (loading timer options args s))) =
           retryCount s + (count_list (fst (snd (loading timer options args s))) Invoke - 1)"
proof (induction s rule: loading_run_induct [of options args _ timer])
  case (success s v)
  then show ?case using assms by (simp add: loading_success retryCount_settled)
next
  case (give_up s e)
  then show ?case using assms by (simp add: loading_give_up retryCount_settled)
next
  case (retry s e)
  from retry assms
    loading_invocations_pos [of timer options args "next_attempt timer options args s"]
  show ?case
    by (simp add: loading_retry Let_def retryCount_next_attempt)
qed

lemma loading_always_failing:
  assumes "\<forall>p. isl (fst (cb options args p))"
    and "\<forall>p. snd (snd (cb options args p)) = 0" and "\<forall>d p. snd (snd (timer d p)) = 0"
  shows "count_list (fst (snd (loading timer options args s))) Invoke
           = nat (or_default (maxRetries options) 2 + 1 - int (retryCount s)) + 1"
proof (induction s rule: loading_run_induct [of options args _ timer])
  case (success s v)
  with assms show ?case by (metis sum.disc(2))
next
  case (give_up s e)
  then show ?case using assms by (simp add: loading_give_up retryCount_settled)
next
  case (retry s e)
  then show ?case using assms
    by (simp add: loading_retry Let_def retryCount_next_attempt retryCount_settled)
qed

lemma failing_alone [simp]:
  "isl (fst (failing err next a p))" "snd (snd (failing err next a p)) = 0"
  by (simp_all add: failing_def)

lemma quiet_raises_nothing [simp]: "snd (snd (quiet d p)) = 0"
  by (simp add: quiet_def)

lemma alone_raises_nothing [simp]: "snd (snd (alone f a p)) = 0"
  by (simp add: alone_def)

section \<open>Properties of the numbers\<close>

text \<open>A whole number below \<open>2 ^ 53\<close> in size is a binary64 value: rounding leaves it as it is.\<close>

lemma round_half_even_of_int [simp]: "round_half_even (of_int n) = n"
  by (simp add: round_half_even_def)

lemma ilog2_int_le:
  assumes "0 < m" "m < 2 ^ 53"
  shows "ilog2 (of_int m) \<le> 52"
proof -
  have "bitlen m \<le> 53" using assms by (simp add: bitlen_le_iff_power)
  then show ?thesis by (simp add: ilog2_def Let_def quotient_of_int bitlen_alt_def)
qed

lemma pow2_nonpos: "p \<le> 0 \<Longrightarrow> pow2 p = 1 / 2 ^ nat (- p)"
  by (cases "p = 0") (simp_all add: pow2_def)

lemma scaled_back:
  assumes "0 < m" "m < 2 ^ 53"
  shows "of_int (round_half_even (of_int m / pow2 (max (ilog2 (of_int m) - 52) (- 1074))))
           * pow2 (max (ilog2 (of_int m) - 52) (- 1074)) = (of_int m :: rat)"
proof -
  let ?p = "max (ilog2 (of_int m) - 52) (- 1074)"
  have "?p \<le> 0" using ilog2_int_le [OF assms] by simp
  then have p: "pow2 ?p = 1 / 2 ^ nat (- ?p)" by (rule pow2_nonpos)
  have "of_int m / pow2 ?p = (of_int (m * 2 ^ nat (- ?p)) :: rat)"
    unfolding p by simp
  then have "round_half_even (of_int m / pow2 ?p) = m * 2 ^ nat (- ?p)"
    by (simp only: round_half_even_of_int)
  then show ?thesis unfolding p by simp
qed

lemma to_double_of_int:
  assumes "\<bar>m\<bar> < 2 ^ 53"
  shows "to_double (of_int m) = Fin (of_int m)"
proof (cases "m = 0")
  case True
  then show ?thesis by (simp add: to_double_def)
next
  case False
  then have pos: "0 < \<bar>m\<bar>" by simp
  have abs: "\<bar>of_int m :: rat\<bar> = of_int \<bar>m\<bar>" by simp
  have small: "\<not> pow2 1024 \<le> (of_int \<bar>m\<bar> :: rat)"
  proof -
    have "(of_int \<bar>m\<bar> :: rat) < of_int (2 ^ 53)" using assms by (simp only: of_int_less_iff)
    also have "\<dots> \<le> 2 ^ 1024" by simp
    finally show ?thesis by (simp add: pow2_def)
  qed
  show ?thesis
    using False small scaled_back [OF pos assms]
    by (simp only: to_double_def Let_def abs) (simp split: if_splits)
qed

lemma to_double_numeral [simp]:
  "numeral w < (2 :: int) ^ 53 \<Longrightarrow> to_double (numeral w) = Fin (numeral w)"
  using to_double_of_int [of "numeral w"] by simp

lemma to_double_neg_numeral [simp]:
  "numeral w < (2 :: int) ^ 53 \<Longrightarrow> to_double (- numeral w) = Fin (- numeral w)"
  using to_double_of_int [of "- numeral w"] by simp

lemma to_double_0 [simp]: "to_double 0 = Fin 0"
  by (simp add: to_double_def)

lemma to_double_1 [simp]: "to_double 1 = Fin 1"
  using to_double_of_int [of 1] by simp

lemma to_double_neg_1 [simp]: "to_double (- 1) = Fin (- 1)"
  using to_double_of_int [of "- 1"] by simp

lemmas Number_eval = Number'_def trim_def isWhiteSpace_def radix_prefix_def signed_decimal_def
  unsigned_decimal_def mantissa_def exponent_part_def is_e_def digits_def digit_of_def pow10_def Let_def

lemmas gt_eval = gt_def pad_def or_default_def gt_loop.simps strict_ne_def Number_eval

text \<open>
  Beyond \<open>2 ^ 53\<close> not every whole number is a binary64 value: \<open>2 ^ 53 + 1\<close>
  lies half way between two of them and goes to the even one.
\<close>

lemma to_double_rounds: "to_double 9007199254740993 = Fin 9007199254740992"
  by code_simp

text \<open>Some strings and their numbers, and some strings split on the dot.\<close>

lemma Number_examples:
  "Number' ''2'' = Fin 2"
  "Number' ''10'' = Fin 10"
  "Number' [] = Fin 0"
  "Number' '' 7 '' = Fin 7"
  "Number' ''-1'' = Fin (- 1)"
  "Number' ''+5'' = Fin 5"
  "Number' ''017'' = Fin 17"
  "Number' ''1e3'' = Fin 1000"
  "Number' ''0x1f'' = Fin 31"
  "Number' ''0b101'' = Fin 5"
  "Number' ''Infinity'' = PosInf"
  "Number' ''-Infinity'' = NegInf"
  "Number' ''x'' = NaN"
  "Number' ''1_0'' = NaN"
  "Number' ''1 2'' = NaN"
  "Number' ''-0x10'' = NaN"
  "Number' ''beta'' = NaN"
  by (simp_all add: Number_eval)

lemma split_on_examples:
  "split_on CHR ''.'' ''1.2.3'' = [''1'', ''2'', ''3'']"
  "split_on CHR ''.'' [] = [[]]"
  "split_on CHR ''.'' ''1..2'' = [''1'', [], ''2'']"
  "split_on CHR ''.'' ''1.'' = [''1'', []]"
  by simp_all

section \<open>Properties of \<open>gt\<close>\<close>

lemma pad_string:
  "len < 2 ^ 32 \<Longrightarrow>
   pad len (JString v) = Inr (take len (map Number' (split_on CHR ''.'' v) @ replicate len (Fin 0)))"
  by (simp add: pad_def)

lemma length_pad:
  "pad len v = Inr xs \<Longrightarrow> length xs = len"
  by (auto simp: pad_def split: json.splits if_splits)

lemma nth_pad:
  assumes "pad len (JString v) = Inr xs" and "i < len"
  shows "xs ! i = (if i < length (split_on CHR ''.'' v)
                   then Number' (split_on CHR ''.'' v ! i) else Fin 0)"
  using assms by (auto simp: pad_def nth_append split: if_splits)

lemma gt_loop_find:
  "gt_loop a b len i =
     (case find (\<lambda>j. strict_ne (a ! j) (b ! j)) [i..<len] of
        None \<Rightarrow> False
      | Some j \<Rightarrow> js_gt (a ! j) (b ! j))"
proof (induction a b len i rule: gt_loop.induct)
  case (1 a b len i)
  show ?case
  proof (cases "i < len")
    case True
    then have "[i..<len] = i # [i + 1..<len]" by (simp add: upt_conv_Cons)
    with True 1 show ?thesis by (subst gt_loop.simps) simp
  next
    case False
    then show ?thesis by (subst gt_loop.simps) simp
  qed
qed

lemma gt_loop_greaterThan:
  "length a = len \<Longrightarrow> gt_loop a b len 0 = greaterThan a b"
  by (simp add: gt_loop_find greaterThan_def first_difference_def)

lemma js_gt_irrefl [simp]: "\<not> js_gt x x"
  by (cases x) simp_all

lemma gt_loop_never_greater:
  assumes "\<forall>j<len. \<not> js_gt (a ! j) (b ! j)"
  shows "gt_loop a b len i = False"
  using assms
proof (induction a b len i rule: gt_loop.induct)
  case (1 a b len i)
  then show ?case by (subst gt_loop.simps) simp
qed

lemma gt_loop_same: "gt_loop a a len i = False"
  by (rule gt_loop_never_greater) simp

lemma strict_ne_NaN [simp]: "strict_ne NaN y" "strict_ne x NaN"
  by (simp_all add: strict_ne_def)

lemma js_gt_NaN [simp]: "\<not> js_gt x NaN"
  by (cases x) simp_all

lemma gt_loop_NaN:
  assumes "i \<le> k" "k < len"
    and "\<forall>j. i \<le> j \<and> j < k \<longrightarrow> \<not> strict_ne (a ! j) (b ! j)"
    and "a ! k = NaN \<or> b ! k = NaN"
  shows "gt_loop a b len i = False"
  using assms
proof (induction a b len i rule: gt_loop.induct)
  case (1 a b len i)
  show ?case
  proof (cases "i = k")
    case True
    with 1(3,5) show ?thesis by (subst gt_loop.simps) auto
  next
    case False
    with 1(2) have lt: "i < k" by simp
    with 1(4) have same: "\<not> strict_ne (a ! i) (b ! i)" by simp
    from lt 1(3) have "i < len" by simp
    moreover have "gt_loop a b len (i + 1) = False"
      using 1(1) [OF \<open>i < len\<close> same] lt 1(3,4,5) by simp
    ultimately show ?thesis using same by (subst gt_loop.simps) simp
  qed
qed

lemma gt_strings:
  assumes "pad len (JString v1) = Inr a" and "pad len (JString v2) = Inr b"
  shows "gt (JString v1) (JString v2) (Some len) = Inr (gt_loop a b len 0)"
  using assms by (simp add: gt_def or_default_def)

lemma gt_default_len: "gt v1 v2 None = gt v1 v2 (Some 3)"
  by (simp add: gt_def or_default_def)

lemma getNpmLatestVersion_returns:
  "\<exists>v. snd (getNpmLatestVersion axios_get name) = Inr v"
  by (simp add: getNpmLatestVersion_def split: sum.splits)

section \<open>The claims about \<open>loading\<close>\<close>

text \<open>
  C1. Two runs of \<open>loading\<close> in one process, each with \<open>maxRetries = 1\<close> and a
  callback of its own that always fails, are said to make two attempts each,
  whatever the other does. In the code they share \<open>retryCount\<close>: run one after
  the other in a fresh process, the first makes three attempts and leaves the
  counter at 2, and the second, which would make three attempts on its own,
  makes one.
\<close>

theorem loading_retry_budget_shared:
  "invocations (loading quiet (o1\<lparr>cb := failing e1 n1, maxRetries := Some 1\<rparr>) a1 (fresh w)) = 3
   \<and> retryCount (final (loading quiet (o1\<lparr>cb := failing e1 n1, maxRetries := Some 1\<rparr>) a1 (fresh w))) = 2
   \<and> invocations (loading quiet (o2\<lparr>cb := failing e2 n2, maxRetries := Some 1\<rparr>) a2
        (final (loading quiet (o1\<lparr>cb := failing e1 n1, maxRetries := Some 1\<rparr>) a1 (fresh w)))) = 1
   \<and> invocations (loading quiet (o2\<lparr>cb := failing e2 n2, maxRetries := Some 1\<rparr>) a2 (fresh w)) = 3"
proof -
  let ?p = "o1\<lparr>cb := failing e1 n1, maxRetries := Some 1\<rparr>"
  let ?q = "o2\<lparr>cb := failing e2 n2, maxRetries := Some 1\<rparr>"
  have mp: "or_default (maxRetries ?p) 2 = 1" and mq: "or_default (maxRetries ?q) 2 = 1"
    by (simp_all add: or_default_def)
  have a: "invocations (loading quiet ?p a1 (fresh w)) = 3"
    using loading_always_failing [of ?p a1 quiet "fresh w"] mp
    by (simp add: invocations_def events_def fresh_def)
  have b: "retryCount (final (loading quiet ?p a1 (fresh w))) = 2"
    using loading_retryCount [of ?p a1 quiet "fresh w"] a
    by (simp add: invocations_def events_def final_def fresh_def)
  have c: "invocations (loading quiet ?q a2 (final (loading quiet ?p a1 (fresh w)))) = 1"
    using loading_always_failing [of ?q a2 quiet "final (loading quiet ?p a1 (fresh w))"] mq b
    by (simp add: invocations_def events_def)
  have d: "invocations (loading quiet ?q a2 (fresh w)) = 3"
    using loading_always_failing [of ?q a2 quiet "fresh w"] mq
    by (simp add: invocations_def events_def fresh_def)
  from a b c d show ?thesis by simp
qed

text \<open>
  C2. In a fresh process, with \<open>maxRetries = 2\<close> and a callback that fails on
  every call, the callback is said to be called three times. The guard of the
  retry is \<open>retryCount <= maxRetries\<close>, which holds for the counts 0, 1 and 2:
  the callback is called four times, and then the run returns \<open>undefined\<close>.
\<close>

theorem loading_maxRetries_2_attempts:
  "invocations (loading quiet (options\<lparr>cb := failing err next, maxRetries := Some 2\<rparr>) args (fresh w)) = 4
   \<and> result (loading quiet (options\<lparr>cb := failing err next, maxRetries := Some 2\<rparr>) args (fresh w)) = Inr None"
  using loading_always_failing
          [of "options\<lparr>cb := failing err next, maxRetries := Some 2\<rparr>" args quiet "fresh w"]
    loading_always_failing_undefined
          [of "options\<lparr>cb := failing err next, maxRetries := Some 2\<rparr>" args quiet "fresh w"]
  by (simp add: fresh_def or_default_def result_def invocations_def events_def)

text \<open>
  A run whose callback fails on its first call and succeeds on its second
  returns the value of the second call after two calls, provided the counter
  has not passed \<open>maxRetries\<close> when the first failure is caught. From a fresh
  process that is so, for \<open>maxRetries\<close> of 1 or more, when the run has the
  process to itself.
\<close>

lemma loading_fail_once_then_succeed:
  assumes "fst (cb options args (fresh w)) = Inl e"
    and "int (snd (snd (cb options args (fresh w)))) \<le> or_default (maxRetries options) 2"
    and "fst (cb options args (next_attempt timer options args (fresh w))) = Inr v"
  shows "result (loading timer options args (fresh w)) = Inr v
         \<and> invocations (loading timer options args (fresh w)) = 2"
proof -
  have go: "int (retryCount (settled (fresh w) (cb options args (fresh w))))
              \<le> or_default (maxRetries options) 2"
    using assms(2) by (simp add: retryCount_settled fresh_def)
  show ?thesis
    using loading_retry [OF assms(1) go, of timer] loading_success [OF assms(3), of timer]
    by (simp add: Let_def result_def invocations_def events_def)
qed

lemma loading_fail_once_then_succeed_alone:
  assumes "fst (f args w) = Inl e"
    and "fst (f args (snd (f args w))) = Inr v"
    and "1 \<le> or_default (maxRetries options) 2"
  shows "result (loading quiet (options\<lparr>cb := alone f\<rparr>) args (fresh w)) = Inr v
         \<and> invocations (loading quiet (options\<lparr>cb := alone f\<rparr>) args (fresh w)) = 2"
  using assms loading_fail_once_then_succeed [of "options\<lparr>cb := alone f\<rparr>" args w e quiet v]
  by (simp add: alone_def fresh_def next_attempt_def settled_def quiet_def Let_def)

text \<open>
  C3. In a fresh process, a run whose callback fails on its first call and
  succeeds on its second, with \<open>maxRetries\<close> at least 1, is said to return the
  value of the second call after two calls. The \<open>catch\<close> block reads the
  counter all runs share: started beside \<open>run1\<close>, which raises the counter to 2
  while the first call is pending, the run finds \<open>2 <= 1\<close> false, makes no
  second call and returns \<open>undefined\<close>. On its own it returns 42.
\<close>

theorem loading_gives_up_beside_failing_run:
  "beside (fresh (0 :: nat)) = 2
   \<and> slow_flaky () (fresh 0) = (Inl (Error ''first call''), 1, 2)
   \<and> fst (slow_flaky () \<lparr>retryCount = 1, world = 1\<rparr>) = Inr (Some 42)
   \<and> result (loading quiet ((defaults slow_flaky)\<lparr>maxRetries := Some 1\<rparr>) () (fresh 0)) = Inr None
   \<and> invocations (loading quiet ((defaults slow_flaky)\<lparr>maxRetries := Some 1\<rparr>) () (fresh 0)) = 1
   \<and> events (loading quiet ((defaults slow_flaky)\<lparr>maxRetries := Some 1\<rparr>) () (fresh 0))
       = [SpinnerStart ''loading...'' ''yellow'', Invoke, SpinnerFail ''failure'']
   \<and> result (loading quiet ((defaults (alone flaky))\<lparr>maxRetries := Some 1\<rparr>) () (fresh 0))
       = Inr (Some 42)"
proof -
  have b: "beside (fresh (0 :: nat)) = 2"
    by (simp add: beside_def loading.simps run1_def defaults_def boom_def failing_def fresh_def
        or_default_def final_def settled_def quiet_def Let_def)
  have s: "slow_flaky () (fresh 0) = (Inl (Error ''first call''), 1, 2)"
    using b by (simp add: slow_flaky_def flaky_def fresh_def)
  have "loading quiet ((defaults slow_flaky)\<lparr>maxRetries := Some 1\<rparr>) () (fresh 0)
          = (Inr None, [SpinnerStart ''loading...'' ''yellow'', Invoke, SpinnerFail ''failure''],
             settled (fresh 0) (slow_flaky () (fresh 0)))"
    using loading_give_up [of "(defaults slow_flaky)\<lparr>maxRetries := Some 1\<rparr>" "()" "fresh 0"
        "Error ''first call''" quiet] s
    by (simp add: defaults_def or_default_def settled_def fresh_def)
  moreover have "result (loading quiet ((defaults (alone flaky))\<lparr>maxRetries := Some 1\<rparr>) () (fresh 0))
       = Inr (Some 42)"
    using loading_fail_once_then_succeed_alone [of flaky "()" 0 "Error ''first call''" "Some 42"
        "(defaults (alone flaky))\<lparr>maxRetries := Some 1\<rparr>"]
    by (simp add: flaky_def defaults_def or_default_def)
  ultimately show ?thesis using b s
    by (simp add: result_def invocations_def events_def slow_flaky_def flaky_def)
qed

text \<open>
  C4. \<open>loading\<close> never hands an exception to its caller, whatever the options,
  the callback, the state of the process and what else runs meanwhile: every
  run returns, after a number of calls bounded by what is left of the retry
  budget, and \<open>undefined\<close> is what it returns when the callback fails on every
  call. With the process to itself, a run whose callback always fails retries
  until the counter has passed \<open>maxRetries\<close>, once for each count from
  \<open>retryCount\<close> to \<open>maxRetries\<close>, and then returns \<open>undefined\<close>.
\<close>

theorem loading_never_throws:
  "(\<exists>r. result (loading timer options args s) = Inr r)
   \<and> invocations (loading timer options args s)
        \<le> nat (or_default (maxRetries options) 2 + 1 - int (retryCount s)) + 1
   \<and> ((\<forall>p. isl (fst (cb options args p))) \<longrightarrow> result (loading timer options args s) = Inr None)
   \<and> invocations (loading quiet (options\<lparr>cb := failing err next\<rparr>) args s)
        = nat (or_default (maxRetries options) 2 + 1 - int (retryCount s)) + 1
   \<and> retryCount (final (loading quiet (options\<lparr>cb := failing err next\<rparr>) args s))
        = retryCount s + nat (or_default (maxRetries options) 2 + 1 - int (retryCount s))
   \<and> result (loading quiet (options\<lparr>cb := failing err next\<rparr>) args s) = Inr None"
proof -
  let ?f = "options\<lparr>cb := failing err next\<rparr>"
  have n: "invocations (loading quiet ?f args s)
             = nat (or_default (maxRetries options) 2 + 1 - int (retryCount s)) + 1"
    using loading_always_failing [of ?f args quiet s]
    by (simp add: invocations_def events_def)
  have c: "retryCount (final (loading quiet ?f args s))
             = retryCount s + nat (or_default (maxRetries options) 2 + 1 - int (retryCount s))"
    using loading_retryCount [of ?f args quiet s] n
    by (simp add: invocations_def events_def final_def)
  have u: "result (loading quiet ?f args s) = Inr None"
    using loading_always_failing_undefined [of ?f args quiet s] by (simp add: result_def)
  from n c u show ?thesis
    using loading_returns [of timer options args s] loading_invocations_le [of timer options args s]
      loading_always_failing_undefined [of options args timer s]
    by (simp add: result_def invocations_def events_def)
qed

text \<open>The options \<open>run2\<close> in a fresh process: four calls, then \<open>undefined\<close>.\<close>

theorem loading_never_throws_witness:
  "(\<forall>p. isl (fst (cb run2 () p)))
   \<and> result (loading quiet run2 () (fresh ())) = Inr None
   \<and> invocations (loading quiet run2 () (fresh ())) = 4
   \<and> retryCount (final (loading quiet run2 () (fresh ()))) = 3"
  using loading_never_throws [of quiet run2 "()" "fresh ()" "\<lambda>a p. Error ''boom''" "\<lambda>a p. world p"]
  by (simp add: run2_def defaults_def boom_def fresh_def or_default_def)

text \<open>
  C10, as amended. \<open>retryCount\<close> never goes down, whatever else runs meanwhile:
  a run adds one for each retry it makes, that is, for each call of the callback
  but its last, and with the process to itself it adds nothing else. Once the
  counter stands at a value above \<open>maxRetries\<close>, a run whose callback fails on
  its first call makes that one call, reports the failure, returns \<open>undefined\<close>
  and does not raise the counter.
\<close>

theorem retryCount_depletes_budget:
  "retryCount s \<le> retryCount (final (loading timer options args s))
   \<and> retryCount s + (invocations (loading timer options args s) - 1)
       \<le> retryCount (final (loading timer options args s))
   \<and> retryCount (final (loading quiet (options\<lparr>cb := alone f\<rparr>) args s))
       = retryCount s + (invocations (loading quiet (options\<lparr>cb := alone f\<rparr>) args s) - 1)
   \<and> (or_default (maxRetries options) 2 < int (retryCount s)
        \<and> isl (fst (cb options args s))
      \<longrightarrow> result (loading timer options args s) = Inr None
          \<and> invocations (loading timer options args s) = 1
          \<and> events (loading timer options args s)
              = [SpinnerStart (or_default (text' options) ''loading...'')
                   (or_default (color options) ''yellow''), Invoke,
                 SpinnerFail (or_default (failureText options) ''failure'')]
          \<and> retryCount (final (loading timer options args s))
              = retryCount s + snd (snd (cb options args s)))"
proof -
  have ge: "retryCount s + (invocations (loading timer options args s) - 1)
             \<le> retryCount (final (loading timer options args s))"
    using loading_retryCount_ge [of s timer options args]
    by (simp add: final_def invocations_def events_def)
  have eq: "retryCount (final (loading quiet (options\<lparr>cb := alone f\<rparr>) args s))
       = retryCount s + (invocations (loading quiet (options\<lparr>cb := alone f\<rparr>) args s) - 1)"
    using loading_retryCount [of "options\<lparr>cb := alone f\<rparr>" args quiet s]
    by (simp add: final_def invocations_def events_def)
  have stop: "result (loading timer options args s) = Inr None
          \<and> invocations (loading timer options args s) = 1
          \<and> events (loading timer options args s)
              = [SpinnerStart (or_default (text' options) ''loading...'')
                   (or_default (color options) ''yellow''), Invoke,
                 SpinnerFail (or_default (failureText options) ''failure'')]
          \<and> retryCount (final (loading timer options args s))
              = retryCount s + snd (snd (cb options args s))"
    if "or_default (maxRetries options) 2 < int (retryCount s)"
      and "isl (fst (cb options args s))"
  proof -
    from that(2) obtain e where Inl: "fst (cb options args s) = Inl e"
      by (metis isl_def)
    from that(1) have no: "\<not> int (retryCount (settled s (cb options args s)))
                             \<le> or_default (maxRetries options) 2"
      by (simp add: retryCount_settled)
    show ?thesis using loading_give_up [OF Inl no, of timer]
      by (simp add: result_def invocations_def events_def final_def retryCount_settled)
  qed
  from ge eq stop show ?thesis by simp
qed

text \<open>A process whose counter stands at 3, and options with \<open>maxRetries = 2\<close>.\<close>

theorem retryCount_depletes_budget_witness:
  "or_default (maxRetries run2) 2 < int (retryCount \<lparr>retryCount = 3, world = ()\<rparr>)
   \<and> isl (fst (cb run2 () \<lparr>retryCount = 3, world = ()\<rparr>))
   \<and> result (loading quiet run2 () \<lparr>retryCount = 3, world = ()\<rparr>) = Inr None
   \<and> invocations (loading quiet run2 () \<lparr>retryCount = 3, world = ()\<rparr>) = 1
   \<and> retryCount (final (loading quiet run2 () \<lparr>retryCount = 3, world = ()\<rparr>)) = 3"
  using retryCount_depletes_budget [of "\<lparr>retryCount = 3, world = ()\<rparr>" quiet run2 "()"]
  by (simp add: run2_def defaults_def boom_def or_default_def)

text \<open>
  C10 as it is written counts failed attempts. A fresh process runs \<open>run0\<close>
  (\<open>maxRetries = 0\<close>): the callback fails twice, and the counter stands at 1,
  since the failure that ends a run is not counted. A later run with
  \<open>maxRetries = 1\<close>, which is less than the two failed attempts, still retries
  once.
\<close>

theorem failed_attempts_not_all_counted:
  "failures (loading quiet run0 () (fresh ())) = 2
   \<and> retryCount (final (loading quiet run0 () (fresh ()))) = 1
   \<and> maxRetries run1 = Some 1
   \<and> invocations (loading quiet run1 () (final (loading quiet run0 () (fresh ())))) = 2
   \<and> events (loading quiet run1 () (final (loading quiet run0 () (fresh ()))))
       = [SpinnerStart ''loading...'' ''yellow'', Invoke,
          SpinnerFail ''Failure, reTrying...'', Sleep 200,
          SpinnerStart ''loading...'' ''yellow'', Invoke, SpinnerFail ''failure'']"
  by (simp add: loading.simps run0_def run1_def defaults_def boom_def failing_def fresh_def
      or_default_def failures_def invocations_def events_def final_def settled_def quiet_def Let_def)

section \<open>The claims about \<open>gt\<close>\<close>

text \<open>
  C7. \<open>gt\<close> splits each version on the dot, turns the segments into numbers and
  pads or cuts the list with zeros to exactly \<open>len\<close> components (3 when no \<open>len\<close>
  is given); its answer is the comparison of the two tuples by their first
  differing pair, most significant first. In particular 2.0.0 is greater than
  1.9.9, 1.2 is not greater than 1.2.0, and 10.0.0 is greater than 9.0.0.
\<close>

theorem gt_lexicographic:
  "(len < 2 ^ 32 \<longrightarrow>
      (\<exists>a b. pad len (JString v1) = Inr a \<and> pad len (JString v2) = Inr b
         \<and> length a = len \<and> length b = len
         \<and> (\<forall>i<len. a ! i = (if i < length (split_on CHR ''.'' v1)
                              then Number' (split_on CHR ''.'' v1 ! i) else Fin 0))
         \<and> (\<forall>i<len. b ! i = (if i < length (split_on CHR ''.'' v2)
                              then Number' (split_on CHR ''.'' v2 ! i) else Fin 0))
         \<and> gt (JString v1) (JString v2) (Some len) = Inr (greaterThan a b)))
   \<and> gt (JString v1) (JString v2) None = gt (JString v1) (JString v2) (Some 3)
   \<and> gt (JString ''2.0.0'') (JString ''1.9.9'') None = Inr True
   \<and> gt (JString ''1.2'') (JString ''1.2.0'') None = Inr False
   \<and> gt (JString ''10.0.0'') (JString ''9.0.0'') None = Inr True"
proof -
  have general: "\<exists>a b. pad len (JString v1) = Inr a \<and> pad len (JString v2) = Inr b
         \<and> length a = len \<and> length b = len
         \<and> (\<forall>i<len. a ! i = (if i < length (split_on CHR ''.'' v1)
                              then Number' (split_on CHR ''.'' v1 ! i) else Fin 0))
         \<and> (\<forall>i<len. b ! i = (if i < length (split_on CHR ''.'' v2)
                              then Number' (split_on CHR ''.'' v2 ! i) else Fin 0))
         \<and> gt (JString v1) (JString v2) (Some len) = Inr (greaterThan a b)"
    if len: "len < 2 ^ 32"
  proof -
    obtain a where a: "pad len (JString v1) = Inr a" using pad_string [OF len] by blast
    obtain b where b: "pad len (JString v2) = Inr b" using pad_string [OF len] by blast
    have la: "length a = len" and lb: "length b = len"
      using a b by (simp_all add: length_pad)
    have "gt (JString v1) (JString v2) (Some len) = Inr (greaterThan a b)"
      using gt_strings [OF a b] gt_loop_greaterThan [OF la] by simp
    with a b la lb nth_pad [OF a] nth_pad [OF b] show ?thesis by blast
  qed
  have e1: "gt (JString ''2.0.0'') (JString ''1.9.9'') None = Inr True"
    by (simp add: gt_eval)
  have e2: "gt (JString ''1.2'') (JString ''1.2.0'') None = Inr False"
    by (simp add: gt_eval)
  have e3: "gt (JString ''10.0.0'') (JString ''9.0.0'') None = Inr True"
    by (simp add: gt_eval)
  from general e1 e2 e3 gt_default_len show ?thesis by blast
qed

text \<open>10.1 against 9.0.0.7 with three components: the first pair decides.\<close>

theorem gt_lexicographic_witness:
  "(3 :: nat) < 2 ^ 32
   \<and> pad 3 (JString ''10.1'') = Inr [Fin 10, Fin 1, Fin 0]
   \<and> pad 3 (JString ''9.0.0.7'') = Inr [Fin 9, Fin 0, Fin 0]
   \<and> first_difference [Fin 10, Fin 1, Fin 0] [Fin 9, Fin 0, Fin 0] = Some 0
   \<and> gt (JString ''10.1'') (JString ''9.0.0.7'') (Some 3)
       = Inr (greaterThan [Fin 10, Fin 1, Fin 0] [Fin 9, Fin 0, Fin 0])
   \<and> greaterThan [Fin 10, Fin 1, Fin 0] [Fin 9, Fin 0, Fin 0]"
  using gt_lexicographic [of 3 "''10.1''" "''9.0.0.7''"]
  by (simp add: pad_def Number_eval greaterThan_def first_difference_def strict_ne_def upt_rec)

text \<open>
  C8. A version string is never greater than itself, whatever it holds
  (malformed or missing segments included) and whatever the number of
  components compared; nor is an absent version greater than an absent one.
\<close>

theorem gt_irreflexive:
  "gt (JString v) (JString v) None = Inr False
   \<and> gt JUndefined JUndefined None = Inr False
   \<and> (len < 2 ^ 32 \<longrightarrow> gt (JString v) (JString v) (Some len) = Inr False)"
  by (simp add: gt_def or_default_def pad_def gt_loop_same)

text \<open>A string with a malformed and an empty segment, on five components.\<close>

theorem gt_irreflexive_witness:
  "(5 :: nat) < 2 ^ 32
   \<and> gt (JString ''1.x..7'') (JString ''1.x..7'') (Some 5) = Inr False
   \<and> pad 5 (JString ''1.x..7'') = Inr [Fin 1, NaN, Fin 0, Fin 7, Fin 0]"
  using gt_irreflexive [of "''1.x..7''" 5]
  by (simp add: pad_def Number_eval)

text \<open>
  C9, as amended. A malformed segment becomes NaN and stays NaN: zeros only fill
  the places of missing segments. As NaN differs from every number and is
  neither greater nor smaller, \<open>gt\<close> answers false as soon as the first differing
  pair of components holds a NaN, on either side.
\<close>

theorem gt_malformed_segment:
  "(len < 2 ^ 32 \<and> k < len
      \<and> pad len (JString v1) = Inr a \<and> pad len (JString v2) = Inr b
      \<and> (\<forall>j<k. \<not> strict_ne (a ! j) (b ! j))
      \<and> (a ! k = NaN \<or> b ! k = NaN)
    \<longrightarrow> gt (JString v1) (JString v2) (Some len) = Inr False)
   \<and> (k < length (split_on CHR ''.'' v1) \<and> k < len
        \<and> Number' (split_on CHR ''.'' v1 ! k) = NaN \<and> pad len (JString v1) = Inr a
      \<longrightarrow> a ! k = NaN)"
proof -
  have first: "gt (JString v1) (JString v2) (Some len) = Inr False"
    if "k < len" and a: "pad len (JString v1) = Inr a" and b: "pad len (JString v2) = Inr b"
      and same: "\<forall>j<k. \<not> strict_ne (a ! j) (b ! j)" and nan: "a ! k = NaN \<or> b ! k = NaN"
  proof -
    have "gt_loop a b len 0 = False"
      using gt_loop_NaN [of 0 k len a b] that by simp
    then show ?thesis using gt_strings [OF a b] by simp
  qed
  have second: "a ! k = NaN"
    if "k < length (split_on CHR ''.'' v1)" "k < len"
      "Number' (split_on CHR ''.'' v1 ! k) = NaN" "pad len (JString v1) = Inr a"
    using nth_pad [OF that(4) that(2)] that(1,3) by simp
  from first second show ?thesis by blast
qed

text \<open>
  1.beta.0 against 1.9.0: the second pair is the first that differs and holds a
  NaN, so neither version is greater, while 1.9.0 is greater than 1.0.0.
\<close>

theorem gt_malformed_segment_witness:
  "(3 :: nat) < 2 ^ 32 \<and> (1 :: nat) < 3
   \<and> split_on CHR ''.'' ''1.beta.0'' = [''1'', ''beta'', ''0'']
   \<and> Number' ''beta'' = NaN
   \<and> pad 3 (JString ''1.beta.0'') = Inr [Fin 1, NaN, Fin 0]
   \<and> pad 3 (JString ''1.9.0'') = Inr [Fin 1, Fin 9, Fin 0]
   \<and> \<not> strict_ne (Fin 1) (Fin 1)
   \<and> gt (JString ''1.beta.0'') (JString ''1.9.0'') (Some 3) = Inr False
   \<and> gt (JString ''1.9.0'') (JString ''1.beta.0'') (Some 3) = Inr False
   \<and> gt (JString ''1.9.0'') (JString ''1.0.0'') (Some 3) = Inr True"
  using gt_malformed_segment [of 3 1 "''1.beta.0''" "[Fin 1, NaN, Fin 0]" "''1.9.0''" "[Fin 1, Fin 9, Fin 0]"]
    gt_malformed_segment [of 3 1 "''1.9.0''" "[Fin 1, Fin 9, Fin 0]" "''1.beta.0''" "[Fin 1, NaN, Fin 0]"]
  by (simp add: gt_eval)

text \<open>
  C9 as it is written: x.0.0 would compare as 0.0.0 does. It does not: 2.0.0 is
  greater than 0.0.0 and not greater than x.0.0, whose first component is NaN.
\<close>

theorem malformed_segment_not_zero:
  "gt (JString ''2.0.0'') (JString ''x.0.0'') None = Inr False
   \<and> gt (JString ''2.0.0'') (JString ''0.0.0'') None = Inr True
   \<and> pad 3 (JString ''x.0.0'') = Inr [NaN, Fin 0, Fin 0]
   \<and> pad 3 (JString ''0.0.0'') = Inr [Fin 0, Fin 0, Fin 0]"
  by (simp add: gt_eval)

section \<open>The claims about the registry lookup and the staleness check\<close>

text \<open>
  What the lookup does, case by case. It never throws. When the request fails,
  or the body of the answer or its \<open>dist-tags\<close> is \<open>undefined\<close> or \<open>null\<close>, reading
  \<open>dist-tags.latest\<close> raises, and the \<open>catch\<close> block logs the warning. When
  \<open>dist-tags\<close> can be read from, nothing is logged and whatever \<open>latest\<close> holds
  there is returned.
\<close>

lemma getNpmLatestVersion_cases:
  "(\<exists>v. snd (getNpmLatestVersion axios_get name) = Inr v)
   \<and> (isl (axios_get (NPM_URL @ name))
      \<longrightarrow> getNpmLatestVersion axios_get name = (warning name, Inr JUndefined))
   \<and> (axios_get (NPM_URL @ name) = Inr body \<and> (body = JUndefined \<or> body = JNull)
      \<longrightarrow> getNpmLatestVersion axios_get name = (warning name, Inr JUndefined))
   \<and> (axios_get (NPM_URL @ name) = Inr body \<and> member body ''dist-tags'' = Inr tags
        \<and> (tags = JUndefined \<or> tags = JNull)
      \<longrightarrow> getNpmLatestVersion axios_get name = (warning name, Inr JUndefined))
   \<and> (axios_get (NPM_URL @ name) = Inr body \<and> member body ''dist-tags'' = Inr tags
        \<and> member tags ''latest'' = Inr v
      \<longrightarrow> getNpmLatestVersion axios_get name = ([], Inr v))"
  by (auto simp: getNpmLatestVersion_def isl_def split: sum.splits)

text \<open>
  C5. When the request fails or the answer cannot be parsed, \<open>dist-tags.latest\<close>
  missing, the lookup is said to log a warning and return \<open>undefined\<close>, without
  throwing. So it does when the registry cannot be reached and when the answer
  has no \<open>dist-tags\<close>. But an answer whose \<open>dist-tags\<close> is an object without
  \<open>latest\<close> gives \<open>undefined\<close> and no warning: nothing is raised there, so the
  \<open>catch\<close> block does not run. And a \<open>latest\<close> that is no string is returned as
  it is, with no warning, and makes \<open>checkVersion\<close> raise a TypeError.
\<close>

theorem getNpmLatestVersion_silent_without_latest:
  "getNpmLatestVersion offline ''action-cli'' = (warning ''action-cli'', Inr JUndefined)
   \<and> getNpmLatestVersion no_dist_tags ''action-cli'' = (warning ''action-cli'', Inr JUndefined)
   \<and> no_latest (NPM_URL @ ''action-cli'')
       = Inr (JObject [(''name'', JString ''action-cli''), (''dist-tags'', JObject [])])
   \<and> getNpmLatestVersion no_latest ''action-cli'' = ([], Inr JUndefined)
   \<and> getNpmLatestVersion numeric_latest ''action-cli'' = ([], Inr (JNumber 5))
   \<and> checkVersion numeric_latest ''action-cli'' ''1.0.0'' = ([], Inl TypeError)"
  by (simp add: getNpmLatestVersion_def checkVersion_def offline_def no_dist_tags_def
      no_latest_def numeric_latest_def gt_def pad_def or_default_def)

text \<open>
  C6. A version is a tuple of numbers none of which is below zero (spec, 3).
  What \<open>checkVersion\<close> prints is what the lookup printed, followed by the two
  lines of the advisory exactly when \<open>gt\<close> finds the latest version greater than
  the current one, and by nothing otherwise. When the lookup returns
  \<open>undefined\<close>, \<open>gt\<close> compares 0.0.0 with the current version, which is not
  greater than any version, malformed segments included: nothing is printed.
\<close>

theorem checkVersion_advisory:
  "(snd (getNpmLatestVersion axios_get name) = Inr latest
      \<longrightarrow> fst (checkVersion axios_get name version)
            = fst (getNpmLatestVersion axios_get name)
              @ (if gt latest (JString version) None = Inr True
                 then advisory latest version else []))
   \<and> (snd (getNpmLatestVersion axios_get name) = Inr JUndefined
        \<and> pad 3 (JString version) = Inr b \<and> (\<forall>x\<in>set b. \<not> js_gt (Fin 0) x)
      \<longrightarrow> checkVersion axios_get name version
            = (fst (getNpmLatestVersion axios_get name), Inr ()))"
proof -
  have printed: "fst (checkVersion axios_get name version)
      = fst (getNpmLatestVersion axios_get name)
        @ (if gt latest (JString version) None = Inr True then advisory latest version else [])"
    if "snd (getNpmLatestVersion axios_get name) = Inr latest"
    using that by (simp add: checkVersion_def Let_def split: sum.splits)
  have silent: "checkVersion axios_get name version
      = (fst (getNpmLatestVersion axios_get name), Inr ())"
    if u: "snd (getNpmLatestVersion axios_get name) = Inr JUndefined"
      and b: "pad 3 (JString version) = Inr b" and nonneg: "\<forall>x\<in>set b. \<not> js_gt (Fin 0) x"
  proof -
    have zero: "pad 3 (JString ''0.0.0'') = Inr [Fin 0, Fin 0, Fin 0]"
      by (simp add: pad_def Number_eval)
    have lb: "length b = 3" using b by (rule length_pad)
    have "\<forall>j<3. \<not> js_gt ([Fin 0, Fin 0, Fin 0] ! j) (b ! j)"
    proof (intro allI impI)
      fix j :: nat assume j: "j < 3"
      then have "b ! j \<in> set b" using lb by simp
      moreover from j have "[Fin 0, Fin 0, Fin 0] ! j = Fin 0"
        by (cases j) (auto simp: less_Suc_eq nth_Cons')
      ultimately show "\<not> js_gt ([Fin 0, Fin 0, Fin 0] ! j) (b ! j)"
        using nonneg by simp
    qed
    then have "gt_loop [Fin 0, Fin 0, Fin 0] b 3 0 = False"
      by (rule gt_loop_never_greater)
    then have "gt JUndefined (JString version) None = Inr False"
      using zero b by (simp add: gt_def or_default_def)
    then show ?thesis using u by (simp add: checkVersion_def Let_def)
  qed
  from printed silent show ?thesis by blast
qed

text \<open>
  The registry that publishes 2.0.0, asked from 1.9.9 and from 2.0.0, and the
  one that cannot be reached, asked from 1.0.0.
\<close>

theorem checkVersion_advisory_witness:
  "snd (getNpmLatestVersion published ''action-cli'') = Inr (JString ''2.0.0'')
   \<and> gt (JString ''2.0.0'') (JString ''1.9.9'') None = Inr True
   \<and> fst (checkVersion published ''action-cli'' ''1.9.9'') = advisory (JString ''2.0.0'') ''1.9.9''
   \<and> gt (JString ''2.0.0'') (JString ''2.0.0'') None = Inr False
   \<and> fst (checkVersion published ''action-cli'' ''2.0.0'') = []
   \<and> snd (getNpmLatestVersion offline ''action-cli'') = Inr JUndefined
   \<and> pad 3 (JString ''1.0.0'') = Inr [Fin 1, Fin 0, Fin 0]
   \<and> \<not> js_gt (Fin 0) (Fin 1) \<and> \<not> js_gt (Fin 0) (Fin 0)
   \<and> checkVersion offline ''action-cli'' ''1.0.0'' = (warning ''action-cli'', Inr ())"
  using checkVersion_advisory [of published "''action-cli''" "JString ''2.0.0''" "''1.9.9''"]
    checkVersion_advisory [of published "''action-cli''" "JString ''2.0.0''" "''2.0.0''"]
    checkVersion_advisory [of offline "''action-cli''" JUndefined "''1.0.0''" "[Fin 1, Fin 0, Fin 0]"]
  by (simp add: getNpmLatestVersion_def published_def offline_def gt_eval)

end
